theory Spec2Isabelle
  imports Main
begin

section \<open>Values and errors\<close>

text \<open>
  The oracle of \<^verbatim>\<open>TP6-AA-multiple-unknown-winners/oracle.py\<close> is one class with a
  constructor that reads a JSON configuration and two methods. Python values are modelled
  as follows.
  \<^item> A byte string (\<^verbatim>\<open>bytes\<close>) is a \<^typ>\<open>string\<close>: a list of 8-bit characters.
  \<^item> A text (\<^verbatim>\<open>str\<close>) that may hold any code point is a list of code points,
    \<^typ>\<open>nat list\<close>. The texts produced by \<^verbatim>\<open>bin\<close> and \<^verbatim>\<open>zfill\<close>, and so the
    fields \<^verbatim>\<open>marked_states\<close> and \<^verbatim>\<open>solutions\<close>, hold ASCII characters only and
    are written as \<^typ>\<open>string\<close>, one character per code point.
  \<^item> Python integers are unbounded: \<^typ>\<open>int\<close>. The interpreter's limit on the number
    of decimal digits that \<^verbatim>\<open>int\<close> converts is a parameter of the model.
  \<^item> \<^verbatim>\<open>n_qubits\<close> is documented as the number of qubits of the register: \<^typ>\<open>nat\<close>.
  \<^item> A raised exception is a value \<open>Inl e\<close> of a sum type; \<open>e\<close> is the class of the
    exception.
\<close>

type_synonym bytes = string
type_synonym unicode = "nat list"

datatype py_error =
    FileNotFoundError
  | PermissionError
  | UnicodeDecodeError
  | JSONDecodeError
  | KeyError
  | TypeError
  | ValueError
  | BinasciiError
  | IndexError
  | WireError

fun class_name :: "py_error \<Rightarrow> string" where
  "class_name FileNotFoundError = ''FileNotFoundError''"
| "class_name PermissionError = ''PermissionError''"
| "class_name UnicodeDecodeError = ''UnicodeDecodeError''"
| "class_name JSONDecodeError = ''JSONDecodeError''"
| "class_name KeyError = ''KeyError''"
| "class_name TypeError = ''TypeError''"
| "class_name ValueError = ''ValueError''"
| "class_name BinasciiError = ''binascii.Error''"
| "class_name IndexError = ''IndexError''"
| "class_name WireError = ''WireError''"

definition ascii :: "string \<Rightarrow> unicode" where
  "ascii s = map of_char s"

section \<open>Library functions called by the oracle\<close>

subsection \<open>\<^verbatim>\<open>bin\<close> and \<^verbatim>\<open>str.zfill\<close>\<close>

text \<open>
  \<^verbatim>\<open>bin(i)\<close> is an optional minus sign, the prefix \<^verbatim>\<open>0b\<close> and the binary digits of the
  magnitude, most significant first, produced from the least significant end.
\<close>

function bin_digits :: "nat \<Rightarrow> string \<Rightarrow> string" where
  "bin_digits n acc =
     (if n = 0 then acc
      else bin_digits (n div 2) ((if odd n then CHR ''1'' else CHR ''0'') # acc))"
  by pat_completeness auto
termination
  by (relation "measure fst") auto

declare bin_digits.simps [simp del]

definition bin :: "int \<Rightarrow> string" where
  "bin i = (if i < 0 then ''-'' else '''') @ ''0b'' @
           (if i = 0 then ''0'' else bin_digits (nat \<bar>i\<bar>) [])"

text \<open>
  \<^verbatim>\<open>s.zfill(width)\<close> returns \<open>s\<close> itself when it already has \<open>width\<close> characters or
  more; otherwise it inserts zeros on the left, after a leading sign if there is one.
\<close>

definition zfill :: "string \<Rightarrow> nat \<Rightarrow> string" where
  "zfill s width =
     (if width \<le> length s then s
      else (case s of
              [] \<Rightarrow> replicate width CHR ''0''
            | c # cs \<Rightarrow>
                if c = CHR ''+'' \<or> c = CHR ''-''
                then c # replicate (width - length s) CHR ''0'' @ cs
                else replicate (width - length s) CHR ''0'' @ s))"

subsection \<open>\<^verbatim>\<open>base64.b64decode\<close>\<close>

text \<open>
  \<^verbatim>\<open>b64decode\<close> is called with its defaults (\<^verbatim>\<open>validate=False\<close>). The value of a
  character in the Base64 alphabet:
\<close>

definition table_a2b_base64 :: "char \<Rightarrow> nat option" where
  "table_a2b_base64 c =
     (let n = (of_char c :: nat) in
      if 65 \<le> n \<and> n \<le> 90 then Some (n - 65)
      else if 97 \<le> n \<and> n \<le> 122 then Some (n - 71)
      else if 48 \<le> n \<and> n \<le> 57 then Some (n + 4)
      else if n = 43 then Some 62
      else if n = 47 then Some 63
      else None)"

text \<open>
  The decoding loop of \<^verbatim>\<open>binascii.a2b_base64\<close> in its non-strict mode. \<open>quad_pos\<close> is
  the position inside the current group of four characters, \<open>leftchar\<close> the bits not yet
  written, \<open>pads\<close> the number of padding characters counted since the last data character.
  A character outside the alphabet is skipped. A padding character ends the input once it
  completes a group that holds two data characters or more, and is skipped otherwise.
  Reaching the end inside a group raises \<^verbatim>\<open>binascii.Error\<close>.
\<close>

fun a2b_loop :: "nat \<Rightarrow> nat \<Rightarrow> nat \<Rightarrow> bytes \<Rightarrow> bytes \<Rightarrow> py_error + bytes" where
  "a2b_loop quad_pos leftchar pads [] out =
     (if quad_pos \<noteq> 0 then Inl BinasciiError else Inr out)"
| "a2b_loop quad_pos leftchar pads (this_ch # rest) out =
     (if this_ch = CHR ''='' then
        (if 2 \<le> quad_pos then
           (if 4 \<le> quad_pos + (pads + 1) then Inr out
            else a2b_loop quad_pos leftchar (pads + 1) rest out)
         else a2b_loop quad_pos leftchar pads rest out)
      else
        (case table_a2b_base64 this_ch of
           None \<Rightarrow> a2b_loop quad_pos leftchar pads rest out
         | Some v \<Rightarrow>
             if quad_pos = 0 then a2b_loop 1 v 0 rest out
             else if quad_pos = 1 then
               a2b_loop 2 (v mod 16) 0 rest (out @ [char_of (leftchar * 4 + v div 16)])
             else if quad_pos = 2 then
               a2b_loop 3 (v mod 4) 0 rest (out @ [char_of (leftchar * 16 + v div 4)])
             else
               a2b_loop 0 0 0 rest (out @ [char_of (leftchar * 64 + v)])))"

definition a2b_base64 :: "bytes \<Rightarrow> py_error + bytes" where
  "a2b_base64 s = a2b_loop 0 0 0 s []"

text \<open>
  \<^verbatim>\<open>b64decode\<close> of a text first encodes it as ASCII, raising \<^verbatim>\<open>ValueError\<close> when a
  code point is not ASCII.
\<close>

definition b64decode :: "unicode \<Rightarrow> py_error + bytes" where
  "b64decode s =
     (if list_all (\<lambda>c. c < 128) s then a2b_base64 (map char_of s) else Inl ValueError)"

subsection \<open>\<^verbatim>\<open>bytes.decode("utf-8")\<close>\<close>

definition cont :: "nat \<Rightarrow> bool" where
  "cont b = (128 \<le> b \<and> b \<le> 191)"

fun utf8 :: "nat list \<Rightarrow> unicode option" where
  "utf8 [] = Some []"
| "utf8 (b0 # bs) =
     (if b0 < 128 then map_option ((#) b0) (utf8 bs)
      else if 194 \<le> b0 \<and> b0 \<le> 223 then
        (case bs of
           b1 # r \<Rightarrow>
             if cont b1
             then map_option ((#) ((b0 - 192) * 64 + (b1 - 128))) (utf8 r)
             else None
         | _ \<Rightarrow> None)
      else if 224 \<le> b0 \<and> b0 \<le> 239 then
        (case bs of
           b1 # b2 # r \<Rightarrow>
             if cont b1 \<and> cont b2
                \<and> (if b0 = 224 then 160 \<le> b1 else True)
                \<and> (if b0 = 237 then b1 \<le> 159 else True)
             then map_option
                    ((#) ((b0 - 224) * 4096 + (b1 - 128) * 64 + (b2 - 128))) (utf8 r)
             else None
         | _ \<Rightarrow> None)
      else if 240 \<le> b0 \<and> b0 \<le> 244 then
        (case bs of
           b1 # b2 # b3 # r \<Rightarrow>
             if cont b1 \<and> cont b2 \<and> cont b3
                \<and> (if b0 = 240 then 144 \<le> b1 else True)
                \<and> (if b0 = 244 then b1 \<le> 143 else True)
             then map_option
                    ((#) ((b0 - 240) * 262144 + (b1 - 128) * 4096
                          + (b2 - 128) * 64 + (b3 - 128))) (utf8 r)
             else None
         | _ \<Rightarrow> None)
      else None)"

definition decode_utf8 :: "bytes \<Rightarrow> py_error + unicode" where
  "decode_utf8 b = (case utf8 (map of_char b) of
                      None \<Rightarrow> Inl UnicodeDecodeError
                    | Some t \<Rightarrow> Inr t)"

subsection \<open>\<^verbatim>\<open>int\<close> of a text\<close>

text \<open>
  \<^verbatim>\<open>int(s)\<close> accepts, in base ten: optional white space, an optional sign, decimal digits
  with single underscores between them, optional white space. A text that is not ASCII is
  first rewritten: a white-space character becomes a blank and a decimal digit of any
  script becomes the ASCII digit of the same value; the first character that is neither
  ends the text with a question mark. Which code points beyond ASCII are white space or
  decimal digits is given by the character database of the interpreter. A literal of
  more than \<^verbatim>\<open>sys.get_int_max_str_digits()\<close> digits is refused; the limit is 4300 by
  default, cannot be set below 640, and is off when it is 0. The database and the limit
  are parameters of the model.
\<close>

record interpreter =
  is_space :: "nat \<Rightarrow> bool"
  to_decimal :: "nat \<Rightarrow> nat option"
  max_str_digits :: nat

fun to_ascii :: "interpreter \<Rightarrow> unicode \<Rightarrow> unicode" where
  "to_ascii db [] = []"
| "to_ascii db (ch # rest) =
     (if ch < 127 then ch # to_ascii db rest
      else if is_space db ch then 32 # to_ascii db rest
      else (case to_decimal db ch of
              None \<Rightarrow> [63]
            | Some d \<Rightarrow> (48 + d) # to_ascii db rest))"

definition is_ws :: "nat \<Rightarrow> bool" where
  "is_ws c = (c = 32 \<or> (9 \<le> c \<and> c \<le> 13))"

definition is_digit :: "nat \<Rightarrow> bool" where
  "is_digit c = (48 \<le> c \<and> c \<le> 57)"

text \<open>
  The digits: \<open>digits\<close> counts them and \<open>prev_us\<close> tells whether the previous character
  was an underscore. The result is the value read, the number of digits and the text
  left, or \<open>None\<close> for a doubled or trailing underscore.
\<close>

fun digits_loop ::
  "nat \<Rightarrow> nat \<Rightarrow> bool \<Rightarrow> unicode \<Rightarrow> (nat \<times> nat \<times> unicode) option" where
  "digits_loop acc digits prev_us [] = (if prev_us then None else Some (acc, digits, []))"
| "digits_loop acc digits prev_us (c # cs) =
     (if c = 95 then (if prev_us then None else digits_loop acc digits True cs)
      else if is_digit c then digits_loop (acc * 10 + (c - 48)) (Suc digits) False cs
      else if prev_us then None else Some (acc, digits, c # cs))"

text \<open>The limit applies to literals of more than 640 digits, and only when it is set.\<close>

definition too_many_digits :: "nat \<Rightarrow> nat \<Rightarrow> bool" where
  "too_many_digits limit digits = (640 < digits \<and> 0 < limit \<and> limit < digits)"

definition long_from_string :: "nat \<Rightarrow> unicode \<Rightarrow> int option" where
  "long_from_string limit s =
     (let s1 = dropWhile is_ws s;
          negative = (case s1 of [] \<Rightarrow> False | c # _ \<Rightarrow> c = 45);
          s2 = (case s1 of [] \<Rightarrow> [] | c # r \<Rightarrow> if c = 43 \<or> c = 45 then r else s1)
      in case s2 of
           [] \<Rightarrow> None
         | c # _ \<Rightarrow>
             if is_digit c then
               (case digits_loop 0 0 False s2 of
                  None \<Rightarrow> None
                | Some (v, digits, rest) \<Rightarrow>
                    if too_many_digits limit digits then None
                    else if dropWhile is_ws rest = []
                    then Some (if negative then - int v else int v)
                    else None)
             else None)"

definition py_int :: "interpreter \<Rightarrow> unicode \<Rightarrow> py_error + int" where
  "py_int db s =
     (case long_from_string (max_str_digits db)
             (if list_all (\<lambda>c. c < 128) s then s else to_ascii db s) of
        None \<Rightarrow> Inl ValueError
      | Some v \<Rightarrow> Inr v)"

section \<open>The configuration\<close>

text \<open>
  \<^verbatim>\<open>json.load\<close> returns \<^verbatim>\<open>None\<close>, a boolean, a number, a text, a list or a
  dictionary. A dictionary is the list of its items in insertion order, with distinct
  keys. The oracle never reads a number; a float is kept as a mantissa and an exponent.
\<close>

datatype json =
    JNull
  | JBool bool
  | JInt int
  | JFloat int int
  | JString unicode
  | JArray "json list"
  | JObject "(unicode \<times> json) list"

text \<open>\<^verbatim>\<open>data[key]\<close> for a text \<open>key\<close>: only a dictionary can be indexed by a text.\<close>

fun subscript :: "json \<Rightarrow> unicode \<Rightarrow> py_error + json" where
  "subscript (JObject items) key =
     (case map_of items key of None \<Rightarrow> Inl KeyError | Some v \<Rightarrow> Inr v)"
| "subscript _ key = Inl TypeError"

text \<open>
  \<^verbatim>\<open>for state in value\<close>: a list gives its elements, a text its characters, a
  dictionary its keys; nothing else can be iterated.
\<close>

fun iterate :: "json \<Rightarrow> py_error + json list" where
  "iterate (JArray xs) = Inr xs"
| "iterate (JString s) = Inr (map (\<lambda>c. JString [c]) s)"
| "iterate (JObject items) = Inr (map (\<lambda>kv. JString (fst kv)) items)"
| "iterate _ = Inl TypeError"

text \<open>
  What \<^verbatim>\<open>open\<close> and \<^verbatim>\<open>json.load\<close> find under a path: no file, a file that may
  not be read, a file whose bytes are not text in the encoding of the platform, a text
  that is not JSON, or a document.
\<close>

datatype config_file = Missing | Unreadable | Undecodable | Malformed | Document json

section \<open>The circuit\<close>

text \<open>
  The operations the oracle asks the circuit library for. \<^verbatim>\<open>qml.Adder(k, wires, mod)\<close>
  adds \<open>k\<close> to the register modulo \<open>mod\<close>; the Pauli-Z given to
  \<^verbatim>\<open>ControlledQubitUnitary\<close> is an argument of that operation. The model records the
  operations the library accepts, in order.
\<close>

datatype 'w operation =
    Adder int "'w list" nat
  | PauliX 'w
  | PauliZ 'w
  | ControlledQubitUnitary "'w operation" "'w list"

text \<open>
  The state outside the object: the file system, the paths given to \<^verbatim>\<open>open\<close> so far,
  and the operations recorded in the active circuit.
\<close>

record 'w world =
  files :: "string \<Rightarrow> config_file"
  opened :: "string list"
  tape :: "'w operation list"

section \<open>The class \<^verbatim>\<open>QuantumOracle\<close>\<close>

record 'w QuantumOracle =
  input_registers :: "'w list"
  n_qubits :: nat
  marked_states :: "string list"
  solutions :: "string list"

subsection \<open>Construction\<close>

text \<open>
  \<^verbatim>\<open>int(base64.b64decode(encoded_str).decode("utf-8"))\<close>: each step either raises or
  hands its result to the next. \<^verbatim>\<open>b64decode\<close> raises \<^verbatim>\<open>TypeError\<close> for a value that
  is not a text.
\<close>

definition decoded_int :: "interpreter \<Rightarrow> json \<Rightarrow> py_error + int" where
  "decoded_int db encoded_str =
     (case encoded_str of
        JString s \<Rightarrow>
          (case b64decode s of
             Inl e \<Rightarrow> Inl e
           | Inr b \<Rightarrow>
               (case decode_utf8 b of
                  Inl e \<Rightarrow> Inl e
                | Inr t \<Rightarrow> py_int db t))
      | _ \<Rightarrow> Inl TypeError)"

definition decode_base64 :: "interpreter \<Rightarrow> nat \<Rightarrow> json \<Rightarrow> py_error + string" where
  "decode_base64 db n encoded_str =
     (case decoded_int db encoded_str of
        Inl e \<Rightarrow> Inl e
      | Inr v \<Rightarrow> Inr (zfill (drop 2 (bin v)) n))"

text \<open>The list comprehensions of \<^verbatim>\<open>_load_config\<close> stop at the first entry that raises.\<close>

fun decode_all :: "interpreter \<Rightarrow> nat \<Rightarrow> json list \<Rightarrow> py_error + string list" where
  "decode_all db n [] = Inr []"
| "decode_all db n (state # states) =
     (case decode_base64 db n state of
        Inl e \<Rightarrow> Inl e
      | Inr r \<Rightarrow>
          (case decode_all db n states of
             Inl e \<Rightarrow> Inl e
           | Inr rs \<Rightarrow> Inr (r # rs)))"

definition decode_key :: "interpreter \<Rightarrow> nat \<Rightarrow> json \<Rightarrow> string \<Rightarrow> py_error + string list" where
  "decode_key db n data key =
     (case subscript data (ascii key) of
        Inl e \<Rightarrow> Inl e
      | Inr v \<Rightarrow>
          (case iterate v of
             Inl e \<Rightarrow> Inl e
           | Inr entries \<Rightarrow> decode_all db n entries))"

definition load_config ::
  "interpreter \<Rightarrow> nat \<Rightarrow> string \<Rightarrow> 'w world
     \<Rightarrow> (py_error + string list \<times> string list) \<times> 'w world" where
  "load_config db n path w =
     (let w' = w\<lparr>opened := opened w @ [path]\<rparr> in
      case files w path of
        Missing \<Rightarrow> (Inl FileNotFoundError, w')
      | Unreadable \<Rightarrow> (Inl PermissionError, w')
      | Undecodable \<Rightarrow> (Inl UnicodeDecodeError, w')
      | Malformed \<Rightarrow> (Inl JSONDecodeError, w')
      | Document data \<Rightarrow>
          (case decode_key db n data ''marked_states'' of
             Inl e \<Rightarrow> (Inl e, w')
           | Inr marked \<Rightarrow>
               (case decode_key db n data ''solutions'' of
                  Inl e \<Rightarrow> (Inl e, w')
                | Inr sols \<Rightarrow> (Inr (marked, sols), w'))))"

text \<open>
  \<^verbatim>\<open>QuantumOracle(input_registers, n_qubits, config_file)\<close>: an exception of
  \<^verbatim>\<open>_load_config\<close> leaves \<^verbatim>\<open>__init__\<close>, and the caller receives no object.
\<close>

definition init ::
  "interpreter \<Rightarrow> 'w list \<Rightarrow> nat \<Rightarrow> string \<Rightarrow> 'w world
     \<Rightarrow> (py_error + 'w QuantumOracle) \<times> 'w world" where
  "init db regs n path w =
     (case load_config db n path w of
        (Inl e, w') \<Rightarrow> (Inl e, w')
      | (Inr (marked, sols), w') \<Rightarrow>
          (Inr \<lparr>input_registers = regs, n_qubits = n,
                marked_states = marked, solutions = sols\<rparr>, w'))"

subsection \<open>\<^verbatim>\<open>apply_oracle\<close>\<close>

text \<open>
  A method call returns a value or raises, and leaves an object and a world behind.
\<close>

type_synonym ('a, 'w) call = "(py_error + 'a) \<times> 'w QuantumOracle \<times> 'w world"

text \<open>
  \<^verbatim>\<open>qml.Adder(k, self.input_registers, 2**self.n_qubits)\<close>. The library refuses wires
  that are not distinct (\<^verbatim>\<open>WireError\<close>), and, no work wires being given, an empty
  register or a modulus other than 2 to the number of wires (\<^verbatim>\<open>ValueError\<close>). A
  refused operation is not recorded.
\<close>

definition adder ::
  "int \<Rightarrow> 'w list \<Rightarrow> nat \<Rightarrow> 'w operation list
     \<Rightarrow> (py_error + unit) \<times> 'w operation list" where
  "adder k wires m t =
     (if distinct wires then
        (if wires = [] \<or> m \<noteq> 2 ^ length wires then (Inl ValueError, t)
         else (Inr (), t @ [Adder k wires m]))
      else (Inl WireError, t))"

text \<open>
  \<^verbatim>\<open>for i, bit in enumerate(state): if bit == "0": qml.PauliX(wires=self.input_registers[i])\<close>.
  Reading the register list beyond its end raises \<^verbatim>\<open>IndexError\<close>; the operations
  recorded before stay recorded.
\<close>

fun x_gates ::
  "'w list \<Rightarrow> nat \<Rightarrow> string \<Rightarrow> 'w operation list
     \<Rightarrow> (py_error + unit) \<times> 'w operation list" where
  "x_gates regs i [] t = (Inr (), t)"
| "x_gates regs i (b # bits) t =
     (if b = CHR ''0'' then
        (if i < length regs then x_gates regs (Suc i) bits (t @ [PauliX (regs ! i)])
         else (Inl IndexError, t))
      else x_gates regs (Suc i) bits t)"

text \<open>
  \<^verbatim>\<open>qml.ControlledQubitUnitary(qml.PauliZ(self.input_registers[-1]),
  control_wires=self.input_registers[:-1])\<close>: the last element of an empty list does not
  exist.
\<close>

definition controlled_z ::
  "'w list \<Rightarrow> 'w operation list \<Rightarrow> (py_error + unit) \<times> 'w operation list" where
  "controlled_z regs t =
     (if regs = [] then (Inl IndexError, t)
      else (Inr (), t @ [ControlledQubitUnitary (PauliZ (last regs)) (butlast regs)]))"

text \<open>The body of the loop over the marked states, for one state.\<close>

definition mark_state ::
  "'w list \<Rightarrow> string \<Rightarrow> 'w operation list \<Rightarrow> (py_error + unit) \<times> 'w operation list" where
  "mark_state regs state t =
     (case x_gates regs 0 state t of
        (Inl e, t1) \<Rightarrow> (Inl e, t1)
      | (Inr _, t1) \<Rightarrow>
          (case controlled_z regs t1 of
             (Inl e, t2) \<Rightarrow> (Inl e, t2)
           | (Inr _, t2) \<Rightarrow> x_gates regs 0 state t2))"

fun mark_states ::
  "'w list \<Rightarrow> string list \<Rightarrow> 'w operation list
     \<Rightarrow> (py_error + unit) \<times> 'w operation list" where
  "mark_states regs [] t = (Inr (), t)"
| "mark_states regs (state # states) t =
     (case mark_state regs state t of
        (Inl e, t') \<Rightarrow> (Inl e, t')
      | (Inr _, t') \<Rightarrow> mark_states regs states t')"

definition apply_oracle :: "'w QuantumOracle \<Rightarrow> 'w world \<Rightarrow> (unit, 'w) call" where
  "apply_oracle self w =
     (let regs = input_registers self
      in case adder 1 regs (2 ^ n_qubits self) (tape w) of
           (Inl e, t1) \<Rightarrow> (Inl e, self, w\<lparr>tape := t1\<rparr>)
         | (Inr _, t1) \<Rightarrow>
             (case mark_states regs (marked_states self) t1 of
                (Inl e, t2) \<Rightarrow> (Inl e, self, w\<lparr>tape := t2\<rparr>)
              | (Inr _, t2) \<Rightarrow>
                  (case adder (- 1) regs (2 ^ n_qubits self) t2 of
                     (Inl e, t3) \<Rightarrow> (Inl e, self, w\<lparr>tape := t3\<rparr>)
                   | (Inr _, t3) \<Rightarrow> (Inr (), self, w\<lparr>tape := t3\<rparr>))))"

subsection \<open>\<^verbatim>\<open>is_solution\<close>\<close>

text \<open>\<^verbatim>\<open>"".join(bin(i)[2:] for i in x)\<close>\<close>

definition binary_x :: "int list \<Rightarrow> string" where
  "binary_x x = concat (map (\<lambda>i. drop 2 (bin i)) x)"

definition is_solution :: "'w QuantumOracle \<Rightarrow> int list \<Rightarrow> 'w world \<Rightarrow> (int, 'w) call" where
  "is_solution self x w =
     (Inr (if binary_x x \<in> set (solutions self) then 1 else 0), self, w)"

section \<open>Notions of the specification\<close>

text \<open>
  The specification speaks of binary representations, of Base64 and decimal encodings,
  of X-masks and of controlled-Z operations. These definitions follow its words; the
  theorems below compare the oracle with them.
\<close>

text \<open>
  The binary representation of a natural number, most significant digit first and with
  no padding; a negative integer is written with a minus sign.
\<close>

function binary_of_nat :: "nat \<Rightarrow> string" where
  "binary_of_nat n =
     (if n < 2 then [if n = 0 then CHR ''0'' else CHR ''1'']
      else binary_of_nat (n div 2) @ [if even n then CHR ''0'' else CHR ''1''])"
  by pat_completeness auto
termination
  by (relation "measure id") auto

declare binary_of_nat.simps [simp del]

definition binary_repr :: "int \<Rightarrow> string" where
  "binary_repr i =
     (if i < 0 then CHR ''-'' # binary_of_nat (nat (- i)) else binary_of_nat (nat i))"

text \<open>A text of the characters 0 and 1 only: it matches \<^verbatim>\<open>^[01]*$\<close>.\<close>

definition binary_string :: "string \<Rightarrow> bool" where
  "binary_string s = list_all (\<lambda>c. c = CHR ''0'' \<or> c = CHR ''1'') s"








text \<open>
  The positions of a marked state whose bit is 0, the X-mask of a state (one X on the
  wire of each such position), and the Z on the last wire controlled on all the others.
\<close>

definition zero_positions :: "string \<Rightarrow> nat list" where
  "zero_positions state = filter (\<lambda>i. state ! i = CHR ''0'') [0..<length state]"

text \<open>The same positions when the first bit of the text stands at position \<open>i\<close>.\<close>

definition zeros_from :: "nat \<Rightarrow> string \<Rightarrow> nat list" where
  "zeros_from i bits = filter (\<lambda>j. bits ! (j - i) = CHR ''0'') [i..<i + length bits]"

definition x_mask :: "'w list \<Rightarrow> string \<Rightarrow> 'w operation list" where
  "x_mask regs state = map (\<lambda>i. PauliX (regs ! i)) (zero_positions state)"

definition multi_controlled_z :: "'w list \<Rightarrow> 'w operation" where
  "multi_controlled_z regs = ControlledQubitUnitary (PauliZ (last regs)) (butlast regs)"

text \<open>
  The groups of operations the specification counts: the increment, three groups for
  each marked state, the decrement.
\<close>

definition groups :: "'w QuantumOracle \<Rightarrow> 'w operation list list" where
  "groups self =
     [[Adder 1 (input_registers self) (2 ^ n_qubits self)]]
     @ concat (map (\<lambda>s. [x_mask (input_registers self) s,
                          [multi_controlled_z (input_registers self)],
                          x_mask (input_registers self) s]) (marked_states self))
     @ [[Adder (- 1) (input_registers self) (2 ^ n_qubits self)]]"

text \<open>
  A state lies in the register when each of its 0 bits stands at a position that has
  a wire. An oracle fits its register when it has no marked state, or the register is
  not empty and every marked state lies in it.
\<close>

definition in_register :: "'w list \<Rightarrow> string \<Rightarrow> bool" where
  "in_register regs state = list_all (\<lambda>i. i < length regs) (zero_positions state)"

definition fits_register :: "'w QuantumOracle \<Rightarrow> bool" where
  "fits_register self =
     (marked_states self = [] \<or>
      (input_registers self \<noteq> [] \<and>
       list_all (in_register (input_registers self)) (marked_states self)))"

text \<open>
  An oracle is wired when it has as many wires as qubits, at least one, and no wire
  twice.
\<close>

definition wired :: "'w QuantumOracle \<Rightarrow> bool" where
  "wired self =
     (length (input_registers self) = n_qubits self
      \<and> distinct (input_registers self) \<and> input_registers self \<noteq> [])"





section \<open>Example configurations\<close>

text \<open>
  An interpreter with the default limit of 4300 digits, and a character database with
  no white space and no digit beyond ASCII. The examples decode ASCII texts, for which
  \<^const>\<open>py_int\<close> does not consult the database.
\<close>

definition ascii_db :: interpreter where
  "ascii_db = \<lparr>is_space = (\<lambda>c. False), to_decimal = (\<lambda>c. None), max_str_digits = 4300\<rparr>"

text \<open>
  The configuration document with the given Base64 texts, and a world whose only file
  is \<^verbatim>\<open>oracle.json\<close>, holding a given document.
\<close>

definition config :: "string list \<Rightarrow> string list \<Rightarrow> json" where
  "config marked sols =
     JObject [(ascii ''marked_states'', JArray (map (\<lambda>s. JString (ascii s)) marked)),
              (ascii ''solutions'', JArray (map (\<lambda>s. JString (ascii s)) sols))]"

definition disk :: "json \<Rightarrow> nat world" where
  "disk doc = \<lparr>files = (\<lambda>p. if p = ''oracle.json'' then Document doc else Missing),
               opened = [], tape = []\<rparr>"

section \<open>Facts about the library functions\<close>

subsection \<open>Binary digits and padding\<close>

lemma bin_digits_binary_of_nat:
  "0 < n \<Longrightarrow> bin_digits n acc = binary_of_nat n @ acc"
proof (induction n acc rule: bin_digits.induct)
  case (1 n acc)
  show ?case
  proof (cases "n < 2")
    case True
    with 1 have "n = 1" by simp
    then show ?thesis
      by (simp add: bin_digits.simps [of "Suc 0"] bin_digits.simps [of 0]
          binary_of_nat.simps [of "Suc 0"])
  next
    case False
    then have "0 < n div 2" by simp
    with 1 False have "bin_digits (n div 2) ((if odd n then CHR ''1'' else CHR ''0'') # acc)
        = binary_of_nat (n div 2) @ ((if odd n then CHR ''1'' else CHR ''0'') # acc)"
      by simp
    with False show ?thesis
      by (simp add: bin_digits.simps [of n] binary_of_nat.simps [of n])
  qed
qed

lemma drop_2_bin:
  "0 \<le> i \<Longrightarrow> drop 2 (bin i) = binary_of_nat (nat i)"
  by (cases "i = 0") (simp_all add: bin_def bin_digits_binary_of_nat binary_of_nat.simps [of 0])

lemma drop_2_bin_neg:
  "i < 0 \<Longrightarrow> drop 2 (bin i) = CHR ''b'' # binary_of_nat (nat (- i))"
  by (simp add: bin_def bin_digits_binary_of_nat)

lemma binary_of_nat_set: "set (binary_of_nat n) \<subseteq> {CHR ''0'', CHR ''1''}"
proof (induction n rule: binary_of_nat.induct)
  case (1 n)
  then show ?case
    by (cases "n < 2") (auto simp: binary_of_nat.simps [of n])
qed

lemma binary_of_nat_length_pos: "0 < length (binary_of_nat n)"
  by (simp add: binary_of_nat.simps [of n])

lemma binary_of_nat_length_le:
  "0 < k \<Longrightarrow> n < 2 ^ k \<Longrightarrow> length (binary_of_nat n) \<le> k"
proof (induction n arbitrary: k rule: binary_of_nat.induct)
  case (1 n)
  show ?case
  proof (cases "n < 2")
    case True
    with 1(2) show ?thesis by (simp add: binary_of_nat.simps [of n])
  next
    case False
    with 1(3) have k: "1 < k" by (cases k; cases "k - 1") auto
    then obtain k' where k': "k = Suc k'" "0 < k'" by (cases k) auto
    with 1(3) have "n div 2 < 2 ^ k'" by auto
    with 1(1) False k' have "length (binary_of_nat (n div 2)) \<le> k'" by simp
    with False k' show ?thesis by (simp add: binary_of_nat.simps [of n])
  qed
qed

lemma binary_of_nat_length_gt:
  "2 ^ k \<le> n \<Longrightarrow> k < length (binary_of_nat n)"
proof (induction n arbitrary: k rule: binary_of_nat.induct)
  case (1 n)
  show ?case
  proof (cases "n < 2")
    case True
    have "k = 0"
    proof (rule ccontr)
      assume "k \<noteq> 0"
      then have "(2::nat) ^ 1 \<le> 2 ^ k" by (intro power_increasing) auto
      with True 1(2) show False by simp
    qed
    then show ?thesis using binary_of_nat_length_pos [of n] by simp
  next
    case False
    show ?thesis
    proof (cases k)
      case 0
      then show ?thesis using binary_of_nat_length_pos [of n] by simp
    next
      case (Suc k')
      with 1(2) have "2 ^ k' \<le> n div 2" by auto
      with 1(1) False have "k' < length (binary_of_nat (n div 2))" by simp
      with False Suc show ?thesis by (simp add: binary_of_nat.simps [of n])
    qed
  qed
qed

lemma length_zfill: "length (zfill s w) = max w (length s)"
  by (auto simp: zfill_def split: list.splits)

lemma set_zfill: "set (zfill s w) \<subseteq> insert CHR ''0'' (set s)"
  by (auto simp: zfill_def split: list.splits)


subsection \<open>Base64\<close>



















subsection \<open>Decimal literals\<close>







lemma is_digit_not_ws: "is_digit c \<Longrightarrow> \<not> is_ws c"
  by (auto simp: is_digit_def is_ws_def)








section \<open>Facts about the oracle\<close>

subsection \<open>The operations of \<^verbatim>\<open>apply_oracle\<close>\<close>

lemma zero_positions_shift:
  "filter (\<lambda>j. (b # bits) ! (j - i) = CHR ''0'') [Suc i..<Suc i + length bits]
     = filter (\<lambda>j. bits ! (j - Suc i) = CHR ''0'') [Suc i..<Suc i + length bits]"
proof (rule filter_cong)
  fix j
  assume "j \<in> set [Suc i..<Suc i + length bits]"
  then have "j - i = Suc (j - Suc i)" by auto
  then show "((b # bits) ! (j - i) = CHR ''0'') = (bits ! (j - Suc i) = CHR ''0'')"
    by simp
qed simp

lemma upt_shift_Cons: "[i..<i + Suc n] = i # [Suc i..<Suc i + n]"
  by (simp add: upt_conv_Cons)

lemma zeros_from_Nil: "zeros_from i [] = []"
  by (simp add: zeros_from_def)

lemma zeros_from_Cons:
  "zeros_from i (b # bits)
     = (if b = CHR ''0'' then i # zeros_from (Suc i) bits else zeros_from (Suc i) bits)"
proof -
  have "[i..<i + length (b # bits)] = i # [Suc i..<Suc i + length bits]"
    using upt_shift_Cons [of i "length bits"] by simp
  then have "zeros_from i (b # bits)
      = filter (\<lambda>j. (b # bits) ! (j - i) = CHR ''0'') (i # [Suc i..<Suc i + length bits])"
    by (simp only: zeros_from_def)
  also have "\<dots> = (if b = CHR ''0''
      then i # filter (\<lambda>j. (b # bits) ! (j - i) = CHR ''0'') [Suc i..<Suc i + length bits]
      else filter (\<lambda>j. (b # bits) ! (j - i) = CHR ''0'') [Suc i..<Suc i + length bits])"
    by (simp only: filter.simps diff_self_eq_0 nth_Cons_0)
  finally show ?thesis
    by (simp only: zero_positions_shift zeros_from_def)
qed

lemma zero_positions_zeros_from: "zero_positions state = zeros_from 0 state"
  by (simp add: zero_positions_def zeros_from_def)

lemma x_gates_ok:
  "list_all (\<lambda>j. j < length regs) (zeros_from i bits)
   \<Longrightarrow> x_gates regs i bits t
       = (Inr (), t @ map (\<lambda>j. PauliX (regs ! j)) (zeros_from i bits))"
proof (induction bits arbitrary: i t)
  case Nil
  show ?case by (simp add: zeros_from_Nil)
next
  case (Cons b bits)
  show ?case
  proof (cases "b = CHR ''0''")
    case True
    with Cons.prems have "i < length regs"
      and "list_all (\<lambda>j. j < length regs) (zeros_from (Suc i) bits)"
      by (simp_all add: zeros_from_Cons)
    with True Cons.IH [of "Suc i"] show ?thesis
      by (simp add: zeros_from_Cons)
  next
    case False
    with Cons.prems have "list_all (\<lambda>j. j < length regs) (zeros_from (Suc i) bits)"
      by (simp add: zeros_from_Cons)
    with False Cons.IH [of "Suc i"] show ?thesis
      by (simp add: zeros_from_Cons)
  qed
qed

lemma x_gates_fail:
  "\<not> list_all (\<lambda>j. j < length regs) (zeros_from i bits)
   \<Longrightarrow> fst (x_gates regs i bits t) = Inl IndexError"
proof (induction bits arbitrary: i t)
  case Nil
  then show ?case by (simp add: zeros_from_Nil)
next
  case (Cons b bits)
  show ?case
  proof (cases "b = CHR ''0'' \<and> \<not> i < length regs")
    case True
    then show ?thesis by simp
  next
    case False
    with Cons.prems have "\<not> list_all (\<lambda>j. j < length regs) (zeros_from (Suc i) bits)"
      by (auto simp: zeros_from_Cons split: if_splits)
    with False Cons.IH [of "Suc i"] show ?thesis
      by auto
  qed
qed

lemma x_gates_in_register:
  "in_register regs state \<Longrightarrow> x_gates regs 0 state t = (Inr (), t @ x_mask regs state)"
  using x_gates_ok [of regs 0 state t]
  by (simp add: in_register_def x_mask_def zero_positions_zeros_from)

lemma x_gates_out_of_range:
  "\<not> in_register regs state \<Longrightarrow> fst (x_gates regs 0 state t) = Inl IndexError"
  using x_gates_fail [of regs 0 state t]
  by (simp add: in_register_def zero_positions_zeros_from)

lemma mark_state_ok:
  "regs \<noteq> [] \<Longrightarrow> in_register regs state \<Longrightarrow>
     mark_state regs state t
       = (Inr (), t @ x_mask regs state @ [multi_controlled_z regs] @ x_mask regs state)"
  by (simp add: mark_state_def x_gates_in_register controlled_z_def multi_controlled_z_def)

lemma mark_state_fail:
  "regs = [] \<or> \<not> in_register regs state \<Longrightarrow> fst (mark_state regs state t) = Inl IndexError"
proof (cases "in_register regs state")
  case True
  assume "regs = [] \<or> \<not> in_register regs state"
  with True have "regs = []" by simp
  with True show ?thesis
    by (simp add: mark_state_def x_gates_in_register controlled_z_def)
next
  case False
  from x_gates_out_of_range [OF False, of t]
  obtain t1 where "x_gates regs 0 state t = (Inl IndexError, t1)"
    by (cases "x_gates regs 0 state t") auto
  then show ?thesis by (simp add: mark_state_def)
qed

lemma mark_states_ok:
  "regs \<noteq> [] \<Longrightarrow> list_all (in_register regs) states \<Longrightarrow>
     mark_states regs states t
       = (Inr (), t @ concat (map (\<lambda>s. x_mask regs s @ [multi_controlled_z regs] @ x_mask regs s)
                                states))"
  by (induction states arbitrary: t) (simp_all add: mark_state_ok)

lemma mark_states_fail:
  "states \<noteq> [] \<Longrightarrow> regs = [] \<or> \<not> list_all (in_register regs) states \<Longrightarrow>
     fst (mark_states regs states t) = Inl IndexError"
proof (induction states arbitrary: t)
  case Nil
  then show ?case by simp
next
  case (Cons s states)
  show ?case
  proof (cases "regs = [] \<or> \<not> in_register regs s")
    case True
    from mark_state_fail [OF True, of t]
    obtain t1 where "mark_state regs s t = (Inl IndexError, t1)"
      by (cases "mark_state regs s t") auto
    then show ?thesis by simp
  next
    case False
    with Cons.prems have rest: "states \<noteq> []" "regs = [] \<or> \<not> list_all (in_register regs) states"
      by auto
    from False have "mark_state regs s t
        = (Inr (), t @ x_mask regs s @ [multi_controlled_z regs] @ x_mask regs s)"
      by (simp add: mark_state_ok)
    with Cons.IH [OF rest] show ?thesis by simp
  qed
qed

lemma adder_wired:
  "wired self \<Longrightarrow>
     adder k (input_registers self) (2 ^ n_qubits self) t
       = (Inr (), t @ [Adder k (input_registers self) (2 ^ n_qubits self)])"
  by (simp add: wired_def adder_def)

lemma adder_wrong_length:
  "distinct regs \<Longrightarrow> length regs \<noteq> n \<Longrightarrow> adder k regs (2 ^ n) t = (Inl ValueError, t)"
  by (simp add: adder_def)

lemma apply_oracle_fits:
  "wired self \<Longrightarrow> fits_register self \<Longrightarrow>
     apply_oracle self w =
       (Inr (), self,
        w\<lparr>tape := tape w @ [Adder 1 (input_registers self) (2 ^ n_qubits self)]
             @ concat (map (\<lambda>s. x_mask (input_registers self) s
                                 @ [multi_controlled_z (input_registers self)]
                                 @ x_mask (input_registers self) s) (marked_states self))
             @ [Adder (- 1) (input_registers self) (2 ^ n_qubits self)]\<rparr>)"
proof -
  assume w: "wired self" and f: "fits_register self"
  from w have ne: "input_registers self \<noteq> []" by (simp add: wired_def)
  with f have "list_all (in_register (input_registers self)) (marked_states self)"
    by (auto simp: fits_register_def)
  with ne show ?thesis
    by (simp add: apply_oracle_def Let_def adder_wired [OF w] mark_states_ok)
qed

lemma apply_oracle_fails:
  "wired self \<Longrightarrow> \<not> fits_register self \<Longrightarrow> fst (apply_oracle self w) = Inl IndexError"
proof -
  assume w: "wired self" and "\<not> fits_register self"
  then have "marked_states self \<noteq> []"
    "input_registers self = [] \<or> \<not> list_all (in_register (input_registers self)) (marked_states self)"
    by (auto simp: fits_register_def)
  from mark_states_fail [OF this]
  obtain t2 where "mark_states (input_registers self) (marked_states self)
      (tape w @ [Adder 1 (input_registers self) (2 ^ n_qubits self)]) = (Inl IndexError, t2)"
    by (metis prod.collapse)
  then show ?thesis by (simp add: apply_oracle_def Let_def adder_wired [OF w])
qed

lemma apply_oracle_wrong_length:
  "distinct (input_registers self) \<Longrightarrow> length (input_registers self) \<noteq> n_qubits self \<Longrightarrow>
     apply_oracle self w = (Inl ValueError, self, w)"
  by (simp add: apply_oracle_def Let_def adder_wrong_length)

subsection \<open>Evaluating examples\<close>

lemma ascii_eq_iff: "ascii a = ascii b \<longleftrightarrow> a = b"
  by (simp add: ascii_def inj_of_char)

lemma b64decode_ascii:
  "b64decode (ascii s)
     = (if list_all (\<lambda>c. (of_char c :: nat) < 128) s then a2b_base64 s else Inl ValueError)"
  by (simp add: b64decode_def ascii_def list_all_iff)

lemmas eval_defs = init_def load_config_def disk_def config_def decode_key_def
  ascii_eq_iff b64decode_ascii
  decode_base64_def decoded_int_def a2b_base64_def table_a2b_base64_def
  decode_utf8_def py_int_def long_from_string_def too_many_digits_def is_ws_def
  is_digit_def bin_def bin_digits.simps zfill_def Let_def cont_def ascii_db_def

subsection \<open>Construction\<close>

lemma decode_all_Inr:
  "decode_all db n xs = Inr rs \<Longrightarrow> list_all2 (\<lambda>x r. decode_base64 db n x = Inr r) xs rs"
  by (induction xs arbitrary: rs) (auto split: sum.splits)

lemma decode_base64_Inr:
  "decode_base64 db n x = Inr r \<Longrightarrow> \<exists>v. decoded_int db x = Inr v \<and> r = zfill (drop 2 (bin v)) n"
  by (auto simp: decode_base64_def split: sum.splits)

lemma decode_key_array:
  "map_of items (ascii key) = Some (JArray xs)
     \<Longrightarrow> decode_key db n (JObject items) key = decode_all db n xs"
  by (simp add: decode_key_def)

lemma init_Inr:
  assumes "init db regs n path w = (Inr self, w')"
  shows "\<exists>data. files w path = Document data
           \<and> decode_key db n data ''marked_states'' = Inr (marked_states self)
           \<and> decode_key db n data ''solutions'' = Inr (solutions self)"
    and "input_registers self = regs" and "n_qubits self = n"
    and "w' = w\<lparr>opened := opened w @ [path]\<rparr>"
  using assms
  by (auto simp: init_def load_config_def Let_def split: config_file.splits sum.splits prod.splits)


lemma zfill_length_ge: "n \<le> length (zfill s n)"
  by (simp add: length_zfill)

lemma decoded_binary:
  "0 \<le> v \<Longrightarrow> binary_string (zfill (drop 2 (bin v)) n)"
proof -
  assume "0 \<le> v"
  then have "set (zfill (drop 2 (bin v)) n) \<subseteq> insert CHR ''0'' (set (binary_of_nat (nat v)))"
    using set_zfill [of "binary_of_nat (nat v)" n] by (simp add: drop_2_bin)
  with binary_of_nat_set [of "nat v"] show ?thesis
    by (auto simp: binary_string_def list_all_iff)
qed

lemma decoded_exact:
  "0 \<le> v \<Longrightarrow> v < 2 ^ n \<Longrightarrow> 0 < n \<Longrightarrow> length (zfill (drop 2 (bin v)) n) = n"
proof -
  assume v: "0 \<le> v" "v < 2 ^ n" and n: "0 < n"
  from v have "nat v < 2 ^ n"
    by (simp add: nat_less_iff)
  with n have "length (binary_of_nat (nat v)) \<le> n" by (rule binary_of_nat_length_le)
  with v show ?thesis by (simp add: length_zfill drop_2_bin)
qed

lemma decoded_wider:
  "2 ^ n \<le> v \<Longrightarrow> n < length (zfill (drop 2 (bin v)) n)"
proof -
  assume v: "2 ^ n \<le> v"
  have "(0::int) < 2 ^ n" by simp
  with v have "0 \<le> v" by linarith
  from v have "2 ^ n \<le> nat v"
    by (simp add: le_nat_iff)
  then have "n < length (binary_of_nat (nat v))" by (rule binary_of_nat_length_gt)
  with \<open>0 \<le> v\<close> show ?thesis by (simp add: length_zfill drop_2_bin)
qed



subsection \<open>Errors of construction\<close>






lemma class_name_not_ConfigError: "class_name e \<noteq> ''ConfigError''"
  by (cases e) simp_all


subsection \<open>The methods\<close>

lemma binary_x_nonneg:
  "list_all (\<lambda>i. 0 \<le> i) x \<Longrightarrow> binary_x x = concat (map binary_repr x)"
proof -
  assume "list_all (\<lambda>i. 0 \<le> i) x"
  then have "map (\<lambda>i. drop 2 (bin i)) x = map binary_repr x"
    by (induction x) (simp_all add: drop_2_bin binary_repr_def)
  then show ?thesis by (simp only: binary_x_def)
qed

lemma binary_x_simps:
  "binary_x [] = []"
  "binary_x (i # x) = drop 2 (bin i) @ binary_x x"
  by (simp_all add: binary_x_def)

lemmas bin_eval = binary_x_simps bin_def bin_digits.simps

lemma concat_groups:
  "concat (concat (map (\<lambda>s. [f s, g, f s]) xs)) = concat (map (\<lambda>s. f s @ g @ f s) xs)"
  by (induction xs) simp_all

lemma length_mask_groups:
  "length (concat (map (\<lambda>s. x_mask regs s @ [z] @ x_mask regs s) xs))
     = sum_list (map (\<lambda>s. 2 * length (zero_positions s) + 1) xs)"
  by (induction xs) (simp_all add: x_mask_def)

lemmas run_defs = apply_oracle_def adder_def mark_state_def controlled_z_def

subsection \<open>Causes of decoding errors\<close>


















subsection \<open>The length of a decimal literal\<close>



section \<open>The claims\<close>

subsection \<open>C1: the decoded strings\<close>

text \<open>
  Claim C1, as the code has it. When construction succeeds on a configuration whose
  two keys hold lists, \<^verbatim>\<open>marked_states\<close> and \<^verbatim>\<open>solutions\<close> have one string for each
  entry, in order. The string of an entry that decodes to the integer \<open>v\<close> is
  \<^verbatim>\<open>bin(v)[2:].zfill(n_qubits)\<close>: it has \<open>n_qubits\<close> characters or more and is never
  truncated. For \<open>v \<ge> 0\<close> it consists of the characters 0 and 1; it has exactly
  \<open>n_qubits\<close> characters when \<open>0 \<le> v < 2 ^ n_qubits\<close> and \<open>n_qubits \<ge> 1\<close>, and more
  than \<open>n_qubits\<close> characters when \<open>v \<ge> 2 ^ n_qubits\<close>.
\<close>

theorem decoded_states_padded_never_truncated:
  assumes "init db regs n path w = (Inr self, w')"
    and "files w path = Document (JObject items)"
    and "map_of items (ascii ''marked_states'') = Some (JArray ms)"
    and "map_of items (ascii ''solutions'') = Some (JArray ss)"
  shows "length (marked_states self) = length ms
       \<and> length (solutions self) = length ss
       \<and> (\<forall>i < length (ms @ ss). \<exists>v.
            decoded_int db ((ms @ ss) ! i) = Inr v
            \<and> (marked_states self @ solutions self) ! i = zfill (drop 2 (bin v)) n
            \<and> n \<le> length ((marked_states self @ solutions self) ! i)
            \<and> (0 \<le> v \<longrightarrow> binary_string ((marked_states self @ solutions self) ! i))
            \<and> (0 \<le> v \<and> v < 2 ^ n \<and> 0 < n
                 \<longrightarrow> length ((marked_states self @ solutions self) ! i) = n)
            \<and> (2 ^ n \<le> v \<longrightarrow> n < length ((marked_states self @ solutions self) ! i)))"
proof -
  from init_Inr(1) [OF assms(1)] assms(2)
  have "decode_key db n (JObject items) ''marked_states'' = Inr (marked_states self)"
    and "decode_key db n (JObject items) ''solutions'' = Inr (solutions self)"
    by auto
  with assms(3,4) have "decode_all db n ms = Inr (marked_states self)"
    and "decode_all db n ss = Inr (solutions self)"
    by (simp_all add: decode_key_array)
  then have m: "list_all2 (\<lambda>x r. decode_base64 db n x = Inr r) ms (marked_states self)"
    and s: "list_all2 (\<lambda>x r. decode_base64 db n x = Inr r) ss (solutions self)"
    by (simp_all add: decode_all_Inr)
  then have all: "list_all2 (\<lambda>x r. decode_base64 db n x = Inr r)
      (ms @ ss) (marked_states self @ solutions self)"
    by (rule list_all2_appendI)
  have lm: "length (marked_states self) = length ms" and ls: "length (solutions self) = length ss"
    using m s by (simp_all add: list_all2_lengthD)
  have "\<exists>v. decoded_int db ((ms @ ss) ! i) = Inr v
            \<and> (marked_states self @ solutions self) ! i = zfill (drop 2 (bin v)) n
            \<and> n \<le> length ((marked_states self @ solutions self) ! i)
            \<and> (0 \<le> v \<longrightarrow> binary_string ((marked_states self @ solutions self) ! i))
            \<and> (0 \<le> v \<and> v < 2 ^ n \<and> 0 < n
                 \<longrightarrow> length ((marked_states self @ solutions self) ! i) = n)
            \<and> (2 ^ n \<le> v \<longrightarrow> n < length ((marked_states self @ solutions self) ! i))"
    if "i < length (ms @ ss)" for i
  proof -
    from all that have "decode_base64 db n ((ms @ ss) ! i)
        = Inr ((marked_states self @ solutions self) ! i)"
      by (rule list_all2_nthD)
    from decode_base64_Inr [OF this] obtain v where
      v: "decoded_int db ((ms @ ss) ! i) = Inr v"
      and r: "(marked_states self @ solutions self) ! i = zfill (drop 2 (bin v)) n"
      by blast
    show ?thesis
      using v r zfill_length_ge decoded_binary decoded_exact decoded_wider
      by (intro exI [of _ v]) simp
  qed
  with lm ls show ?thesis by blast
qed

theorem decoded_states_padded_never_truncated_witness:
  "init ascii_db [0::nat, 1] 2 ''oracle.json'' (disk (config [''NQ=='', ''Mw==''] [''Mw=='']))
     = (Inr \<lparr>input_registers = [0, 1], n_qubits = 2,
             marked_states = [''101'', ''11''], solutions = [''11'']\<rparr>,
        (disk (config [''NQ=='', ''Mw==''] [''Mw=='']))\<lparr>opened := [''oracle.json'']\<rparr>)
   \<and> files (disk (config [''NQ=='', ''Mw==''] [''Mw==''])) ''oracle.json''
       = Document (config [''NQ=='', ''Mw==''] [''Mw==''])
   \<and> length (marked_states \<lparr>input_registers = [0::nat, 1], n_qubits = 2,
             marked_states = [''101'', ''11''], solutions = [''11'']\<rparr>) = 2
   \<and> length (solutions \<lparr>input_registers = [0::nat, 1], n_qubits = 2,
             marked_states = [''101'', ''11''], solutions = [''11'']\<rparr>) = 1"
proof -
  let ?w = "disk (config [''NQ=='', ''Mw==''] [''Mw==''])"
  let ?ms = "[JString (ascii ''NQ==''), JString (ascii ''Mw=='')]"
  let ?ss = "[JString (ascii ''Mw=='')]"
  let ?items = "[(ascii ''marked_states'', JArray ?ms), (ascii ''solutions'', JArray ?ss)]"
  let ?self = "\<lparr>input_registers = [0::nat, 1], n_qubits = 2,
             marked_states = [''101'', ''11''], solutions = [''11'']\<rparr>"
  have h1: "init ascii_db [0::nat, 1] 2 ''oracle.json'' ?w
      = (Inr ?self, ?w\<lparr>opened := [''oracle.json'']\<rparr>)"
    by (simp add: eval_defs)
  have h2: "files ?w ''oracle.json'' = Document (JObject ?items)"
    by (simp add: disk_def config_def)
  have h3: "map_of ?items (ascii ''marked_states'') = Some (JArray ?ms)"
    by simp
  have h4: "map_of ?items (ascii ''solutions'') = Some (JArray ?ss)"
    by (simp add: ascii_eq_iff)
  from decoded_states_padded_never_truncated [OF h1 h2 h3 h4] h1 h2
  show ?thesis by (simp add: config_def)
qed

text \<open>
  C1 as stated fails: with \<open>n_qubits = 2\<close>, the entry \<^verbatim>\<open>NQ==\<close> (the Base64 of
  \<^verbatim>\<open>5\<close>) decodes to \<^verbatim>\<open>101\<close>, which has three characters. \<^verbatim>\<open>zfill\<close> pads and
  does not truncate.
\<close>

theorem overwide_value_counterexample:
  "init ascii_db [0::nat, 1] 2 ''oracle.json'' (disk (config [''NQ==''] []))
     = (Inr \<lparr>input_registers = [0, 1], n_qubits = 2, marked_states = [''101''], solutions = []\<rparr>,
        (disk (config [''NQ==''] []))\<lparr>opened := [''oracle.json'']\<rparr>)
   \<and> length (hd (marked_states
         \<lparr>input_registers = [0::nat, 1], n_qubits = 2, marked_states = [''101''], solutions = []\<rparr>))
       \<noteq> n_qubits
         \<lparr>input_registers = [0::nat, 1], n_qubits = 2, marked_states = [''101''], solutions = []\<rparr>"
  by (simp add: eval_defs)

subsection \<open>C2: what \<^verbatim>\<open>is_solution\<close> tests\<close>

text \<open>
  Claim C2, as the code has it. For every oracle and every sequence \<open>x\<close> of integers
  that are not negative, \<^verbatim>\<open>is_solution(x)\<close> returns 1 when the concatenation of the
  binary representations of the elements of \<open>x\<close>, each without padding, is equal as a
  string to one of the solution strings, and 0 otherwise. The comparison is between
  strings: no numeric equivalence across lengths is applied.
\<close>

theorem is_solution_exact_match_nonneg:
  "list_all (\<lambda>i. 0 \<le> i) x \<Longrightarrow>
     is_solution self x w
       = (Inr (if concat (map binary_repr x) \<in> set (solutions self) then 1 else 0), self, w)"
  by (simp add: is_solution_def binary_x_nonneg)

theorem is_solution_exact_match_nonneg_witness:
  "list_all (\<lambda>i. 0 \<le> i) [0, 1, 1 :: int]
   \<and> concat (map binary_repr [0, 1, 1]) = ''011''
   \<and> is_solution
        \<lparr>input_registers = [0::nat, 1], n_qubits = 2, marked_states = [''11''],
          solutions = [''11'']\<rparr> [0, 1, 1] (disk JNull)
       = (Inr 0,
          \<lparr>input_registers = [0, 1], n_qubits = 2, marked_states = [''11''],
            solutions = [''11'']\<rparr>, disk JNull)"
proof -
  have h: "list_all (\<lambda>i. 0 \<le> i) [0, 1, 1 :: int]" by simp
  have c: "concat (map binary_repr [0, 1, 1]) = ''011''"
    by (simp add: binary_repr_def binary_of_nat.simps)
  from is_solution_exact_match_nonneg [OF h,
      of "\<lparr>input_registers = [0::nat, 1], n_qubits = 2, marked_states = [''11''],
          solutions = [''11'']\<rparr>" "disk JNull"] h c
  show ?thesis by simp
qed

text \<open>
  C2 as stated, for every sequence of integers, fails on a negative element.
  \<^verbatim>\<open>bin(-1)\<close> is \<^verbatim>\<open>-0b1\<close>, and \<^verbatim>\<open>[2:]\<close> removes the sign and the zero, leaving
  \<^verbatim>\<open>b1\<close>. The same happens when a configured value is negative, so an oracle
  constructed from the entry \<^verbatim>\<open>LTE=\<close> (the Base64 of \<^verbatim>\<open>-1\<close>) has the solution string
  \<^verbatim>\<open>b1\<close> and answers 1 for \<open>[-1]\<close>, although the binary representation of \<open>-1\<close> is
  none of its solution strings.
\<close>

theorem negative_element_counterexample:
  "init ascii_db [0::nat] 1 ''oracle.json'' (disk (config [] [''LTE='']))
     = (Inr \<lparr>input_registers = [0], n_qubits = 1, marked_states = [], solutions = [''b1'']\<rparr>,
        (disk (config [] [''LTE='']))\<lparr>opened := [''oracle.json'']\<rparr>)
   \<and> is_solution
        \<lparr>input_registers = [0::nat], n_qubits = 1, marked_states = [], solutions = [''b1'']\<rparr>
        [- 1] ((disk (config [] [''LTE='']))\<lparr>opened := [''oracle.json'']\<rparr>)
       = (Inr 1,
          \<lparr>input_registers = [0], n_qubits = 1, marked_states = [], solutions = [''b1'']\<rparr>,
          (disk (config [] [''LTE='']))\<lparr>opened := [''oracle.json'']\<rparr>)
   \<and> concat (map binary_repr [- 1]) = ''-1''
   \<and> ''-1'' \<notin> set (solutions
        \<lparr>input_registers = [0::nat], n_qubits = 1, marked_states = [], solutions = [''b1'']\<rparr>)"
proof -
  have h1: "init ascii_db [0::nat] 1 ''oracle.json'' (disk (config [] [''LTE='']))
     = (Inr \<lparr>input_registers = [0], n_qubits = 1, marked_states = [], solutions = [''b1'']\<rparr>,
        (disk (config [] [''LTE='']))\<lparr>opened := [''oracle.json'']\<rparr>)"
    by (simp add: eval_defs)
  have h2: "is_solution
        \<lparr>input_registers = [0::nat], n_qubits = 1, marked_states = [], solutions = [''b1'']\<rparr>
        [- 1] ((disk (config [] [''LTE='']))\<lparr>opened := [''oracle.json'']\<rparr>)
       = (Inr 1,
          \<lparr>input_registers = [0], n_qubits = 1, marked_states = [], solutions = [''b1'']\<rparr>,
          (disk (config [] [''LTE='']))\<lparr>opened := [''oracle.json'']\<rparr>)"
    by (simp add: is_solution_def bin_eval)
  have h3: "concat (map binary_repr [- 1]) = ''-1''"
    by (simp add: binary_repr_def binary_of_nat.simps)
  have h4: "''-1'' \<notin> set (solutions
        \<lparr>input_registers = [0::nat], n_qubits = 1, marked_states = [], solutions = [''b1'']\<rparr>)"
    by simp
  from h1 h2 h3 h4 show ?thesis by (intro conjI)
qed

subsection \<open>C3: how many operations\<close>

text \<open>
  Claim C3, as the code has it. For every oracle whose register has \<open>n_qubits\<close> distinct
  wires (at least one) and whose marked states fit the register, a call of
  \<^verbatim>\<open>apply_oracle\<close> returns normally and records, in order, \<open>1 + 3 * len(marked_states) + 1\<close>
  groups of operations: the increment; for each marked state an X-mask, one
  controlled-Z and the same X-mask; the decrement. An X-mask holds one X for each 0 bit
  of the state and may be empty, so the tape grows by
  \<open>1 + (2 * zeros(s) + 1 summed over the marked states s) + 1\<close> operations.
\<close>

theorem apply_oracle_groups:
  "wired self \<Longrightarrow> fits_register self \<Longrightarrow>
     apply_oracle self w = (Inr (), self, w\<lparr>tape := tape w @ concat (groups self)\<rparr>)
     \<and> length (groups self) = 1 + 3 * length (marked_states self) + 1
     \<and> length (tape (snd (snd (apply_oracle self w))))
         = length (tape w) + 1
           + sum_list (map (\<lambda>s. 2 * length (zero_positions s) + 1) (marked_states self)) + 1"
proof -
  assume wired: "wired self" and fits: "fits_register self"
  have flat: "concat (groups self)
      = [Adder 1 (input_registers self) (2 ^ n_qubits self)]
        @ concat (map (\<lambda>s. x_mask (input_registers self) s
                           @ [multi_controlled_z (input_registers self)]
                           @ x_mask (input_registers self) s) (marked_states self))
        @ [Adder (- 1) (input_registers self) (2 ^ n_qubits self)]"
    by (simp add: groups_def concat_groups)
  have count: "length (groups self) = 1 + 3 * length (marked_states self) + 1"
    by (simp add: groups_def length_concat o_def sum_list_triv)
  from flat have flat_count: "length (concat (groups self))
      = 1 + sum_list (map (\<lambda>s. 2 * length (zero_positions s) + 1) (marked_states self)) + 1"
    by (simp only: length_append length_mask_groups) simp
  from apply_oracle_fits [OF wired fits, of w] flat
  have run: "apply_oracle self w = (Inr (), self, w\<lparr>tape := tape w @ concat (groups self)\<rparr>)"
    by simp
  then have "length (tape (snd (snd (apply_oracle self w))))
      = length (tape w) + length (concat (groups self))"
    by simp
  with run count flat_count show ?thesis by simp
qed

text \<open>
  The theorem at the register \<open>[0, 1]\<close> with the marked states \<open>01\<close> and \<open>11\<close>: eight
  groups, six operations.
\<close>

theorem apply_oracle_groups_witness:
  "wired
     \<lparr>input_registers = [0::nat, 1], n_qubits = 2, marked_states = [''01'', ''11''],
       solutions = []\<rparr>
   \<and> fits_register
     \<lparr>input_registers = [0::nat, 1], n_qubits = 2, marked_states = [''01'', ''11''],
       solutions = []\<rparr>
   \<and> apply_oracle
       \<lparr>input_registers = [0::nat, 1], n_qubits = 2, marked_states = [''01'', ''11''],
         solutions = []\<rparr> (disk JNull)
      = (Inr (),
         \<lparr>input_registers = [0, 1], n_qubits = 2, marked_states = [''01'', ''11''],
           solutions = []\<rparr>,
         (disk JNull)\<lparr>tape :=
            [Adder 1 [0, 1] 4,
             PauliX 0, ControlledQubitUnitary (PauliZ 1) [0], PauliX 0,
             ControlledQubitUnitary (PauliZ 1) [0],
             Adder (- 1) [0, 1] 4]\<rparr>)
   \<and> length (groups
       \<lparr>input_registers = [0::nat, 1], n_qubits = 2, marked_states = [''01'', ''11''],
         solutions = []\<rparr>) = 8
   \<and> length (tape (snd (snd (apply_oracle
       \<lparr>input_registers = [0::nat, 1], n_qubits = 2, marked_states = [''01'', ''11''],
         solutions = []\<rparr> (disk JNull))))) = 6"
proof -
  let ?self = "\<lparr>input_registers = [0::nat, 1], n_qubits = 2,
                marked_states = [''01'', ''11''], solutions = []\<rparr>"
  have z: "zero_positions ''01'' = [0]" "zero_positions ''11'' = []"
    by (simp_all add: zero_positions_def)
  have w: "wired ?self" by (simp add: wired_def)
  have h: "fits_register ?self"
    by (simp add: fits_register_def in_register_def z)
  from apply_oracle_groups [OF w h, of "disk JNull"] w h
  show ?thesis
    by (simp add: groups_def x_mask_def multi_controlled_z_def z disk_def)
qed

text \<open>
  The count of C3 read as a count of operations fails. For the oracle constructed from
  the entry \<^verbatim>\<open>Mw==\<close> (the decimal 3, the marked state \<open>11\<close>) both masks are empty and
  the call records three operations, not five.
\<close>

theorem three_operations_counterexample:
  "init ascii_db [0::nat, 1] 2 ''oracle.json'' (disk (config [''Mw==''] [''Mw=='']))
     = (Inr \<lparr>input_registers = [0, 1], n_qubits = 2, marked_states = [''11''],
             solutions = [''11'']\<rparr>,
        (disk (config [''Mw==''] [''Mw=='']))\<lparr>opened := [''oracle.json'']\<rparr>)
   \<and> apply_oracle
        \<lparr>input_registers = [0::nat, 1], n_qubits = 2, marked_states = [''11''],
          solutions = [''11'']\<rparr>
        ((disk (config [''Mw==''] [''Mw=='']))\<lparr>opened := [''oracle.json'']\<rparr>)
       = (Inr (),
          \<lparr>input_registers = [0, 1], n_qubits = 2, marked_states = [''11''],
            solutions = [''11'']\<rparr>,
          (disk (config [''Mw==''] [''Mw=='']))\<lparr>opened := [''oracle.json''], tape :=
             [Adder 1 [0, 1] 4, ControlledQubitUnitary (PauliZ 1) [0],
              Adder (- 1) [0, 1] 4]\<rparr>)
   \<and> length [Adder 1 [0::nat, 1] 4, ControlledQubitUnitary (PauliZ 1) [0],
              Adder (- 1) [0, 1] 4]
       \<noteq> 1 + 3 * length (marked_states
             \<lparr>input_registers = [0::nat, 1], n_qubits = 2, marked_states = [''11''],
               solutions = [''11'']\<rparr>) + 1"
  by (simp add: eval_defs run_defs)

subsection \<open>C4: failures of construction\<close>




subsection \<open>C5: what is applied for each marked state\<close>

text \<open>
  Claim C5, as the code has it. For every oracle whose register has \<open>n_qubits\<close> distinct
  wires (at least one) and whose marked states fit the register, \<^verbatim>\<open>apply_oracle\<close>
  handles the marked states in the order of the configuration, and for each one records
  an X on exactly the wires at the positions where the state has a 0 bit, then one Z on
  the last wire controlled on all the other wires, then the same X operations again.
  With such a register and a marked state that does not fit it, the call raises
  \<^verbatim>\<open>IndexError\<close>. With distinct wires whose number is not \<open>n_qubits\<close>, the increment
  is refused: the call raises \<^verbatim>\<open>ValueError\<close> and records nothing.
\<close>

theorem apply_oracle_marks_each_state:
  "(wired self \<and> fits_register self \<longrightarrow>
      apply_oracle self w
        = (Inr (), self,
           w\<lparr>tape := tape w @ [Adder 1 (input_registers self) (2 ^ n_qubits self)]
                @ concat (map (\<lambda>s. x_mask (input_registers self) s
                                    @ [multi_controlled_z (input_registers self)]
                                    @ x_mask (input_registers self) s) (marked_states self))
                @ [Adder (- 1) (input_registers self) (2 ^ n_qubits self)]\<rparr>))
   \<and> (wired self \<and> \<not> fits_register self \<longrightarrow> fst (apply_oracle self w) = Inl IndexError)
   \<and> (distinct (input_registers self) \<and> length (input_registers self) \<noteq> n_qubits self
        \<longrightarrow> apply_oracle self w = (Inl ValueError, self, w))"
  using apply_oracle_fits [of self w] apply_oracle_fails [of self w]
    apply_oracle_wrong_length [of self w]
  by blast

text \<open>The theorem at the register \<open>[5, 7]\<close> with the marked state \<open>10\<close>.\<close>

theorem apply_oracle_marks_each_state_witness:
  "wired
     \<lparr>input_registers = [5::nat, 7], n_qubits = 2, marked_states = [''10''], solutions = []\<rparr>
   \<and> fits_register
     \<lparr>input_registers = [5::nat, 7], n_qubits = 2, marked_states = [''10''], solutions = []\<rparr>
   \<and> apply_oracle
       \<lparr>input_registers = [5::nat, 7], n_qubits = 2, marked_states = [''10''], solutions = []\<rparr>
       (disk JNull)
      = (Inr (),
         \<lparr>input_registers = [5, 7], n_qubits = 2, marked_states = [''10''], solutions = []\<rparr>,
         (disk JNull)\<lparr>tape :=
            [Adder 1 [5, 7] 4,
             PauliX 7, ControlledQubitUnitary (PauliZ 7) [5], PauliX 7,
             Adder (- 1) [5, 7] 4]\<rparr>)"
proof -
  let ?self = "\<lparr>input_registers = [5::nat, 7], n_qubits = 2, marked_states = [''10''],
                solutions = []\<rparr>"
  have z: "zero_positions ''10'' = [1]"
    by (simp add: zero_positions_def)
  have w: "wired ?self" by (simp add: wired_def)
  have h: "fits_register ?self"
    by (simp add: fits_register_def in_register_def z)
  from apply_oracle_marks_each_state [of ?self "disk JNull"] w h
  show ?thesis
    by (simp add: x_mask_def multi_controlled_z_def z disk_def)
qed

text \<open>
  C5 for every constructed oracle fails. With \<open>n_qubits = 2\<close> and two wires, the entry
  \<^verbatim>\<open>NA==\<close> (the decimal 4) gives the marked state \<open>100\<close>, whose 0 bit at position 2
  has no wire: the call raises \<^verbatim>\<open>IndexError\<close> after the increment and one X;
  no controlled-Z is recorded.
\<close>

theorem overlong_state_counterexample:
  "init ascii_db [0::nat, 1] 2 ''oracle.json'' (disk (config [''NA==''] []))
     = (Inr \<lparr>input_registers = [0, 1], n_qubits = 2, marked_states = [''100''],
             solutions = []\<rparr>,
        (disk (config [''NA==''] []))\<lparr>opened := [''oracle.json'']\<rparr>)
   \<and> apply_oracle
        \<lparr>input_registers = [0::nat, 1], n_qubits = 2, marked_states = [''100''],
          solutions = []\<rparr>
        ((disk (config [''NA==''] []))\<lparr>opened := [''oracle.json'']\<rparr>)
       = (Inl IndexError,
          \<lparr>input_registers = [0, 1], n_qubits = 2, marked_states = [''100''],
            solutions = []\<rparr>,
          (disk (config [''NA==''] []))\<lparr>opened := [''oracle.json''],
             tape := [Adder 1 [0, 1] 4, PauliX 1]\<rparr>)"
  by (simp add: eval_defs run_defs)

subsection \<open>C6: the round trip\<close>




subsection \<open>C7: no marked state\<close>

text \<open>
  Claim C7, as the code has it. For an oracle constructed from a configuration whose
  list of marked states is empty, over a register of distinct wires: when the register
  has \<open>n_qubits\<close> wires (at least one), \<^verbatim>\<open>apply_oracle\<close> returns normally and records
  exactly two operations, the increment and the decrement, with nothing between them;
  when the number of wires is not \<open>n_qubits\<close>, the increment is refused, the call
  raises \<^verbatim>\<open>ValueError\<close> and records nothing.
\<close>

theorem empty_marked_states_two_operations:
  assumes "init db regs n path w0 = (Inr self, w1)"
    and "files w0 path = Document (JObject items)"
    and "map_of items (ascii ''marked_states'') = Some (JArray [])"
    and "distinct regs"
  shows "(length regs = n \<and> regs \<noteq> []
          \<longrightarrow> apply_oracle self w
              = (Inr (), self,
                 w\<lparr>tape := tape w @ [Adder 1 regs (2 ^ n), Adder (- 1) regs (2 ^ n)]\<rparr>))
       \<and> (length regs \<noteq> n \<longrightarrow> apply_oracle self w = (Inl ValueError, self, w))"
proof -
  from init_Inr(1) [OF assms(1)] assms(2)
  have "decode_key db n (JObject items) ''marked_states'' = Inr (marked_states self)"
    by auto
  with assms(3) have m: "marked_states self = []"
    by (simp add: decode_key_array)
  note r = init_Inr(2,3) [OF assms(1)]
  have "apply_oracle self w
      = (Inr (), self, w\<lparr>tape := tape w @ [Adder 1 regs (2 ^ n), Adder (- 1) regs (2 ^ n)]\<rparr>)"
    if "length regs = n" and "regs \<noteq> []"
  proof -
    from that assms(4) r have "wired self" by (simp add: wired_def)
    moreover from m have "fits_register self" by (simp add: fits_register_def)
    ultimately show ?thesis
      using apply_oracle_fits [of self w] m r by simp
  qed
  moreover have "apply_oracle self w = (Inl ValueError, self, w)" if "length regs \<noteq> n"
    using apply_oracle_wrong_length [of self w] that assms(4) r by simp
  ultimately show ?thesis by blast
qed

text \<open>The theorem at the register \<open>[0, 1]\<close> with two qubits.\<close>

theorem empty_marked_states_two_operations_witness:
  "init ascii_db [0::nat, 1] 2 ''oracle.json'' (disk (config [] [''Mw=='']))
     = (Inr \<lparr>input_registers = [0, 1], n_qubits = 2, marked_states = [], solutions = [''11'']\<rparr>,
        (disk (config [] [''Mw==''])) \<lparr>opened := [''oracle.json'']\<rparr>)
   \<and> files (disk (config [] [''Mw==''])) ''oracle.json'' = Document (config [] [''Mw==''])
   \<and> distinct [0::nat, 1]
   \<and> apply_oracle
        \<lparr>input_registers = [0::nat, 1], n_qubits = 2, marked_states = [], solutions = [''11'']\<rparr>
        ((disk (config [] [''Mw==''])) \<lparr>opened := [''oracle.json'']\<rparr>)
       = (Inr (),
          \<lparr>input_registers = [0, 1], n_qubits = 2, marked_states = [], solutions = [''11'']\<rparr>,
          (disk (config [] [''Mw==''])) \<lparr>opened := [''oracle.json''],
             tape := [Adder 1 [0, 1] 4, Adder (- 1) [0, 1] 4]\<rparr>)"
proof -
  let ?w = "disk (config [] [''Mw==''])"
  let ?items = "[(ascii ''marked_states'', JArray []),
                 (ascii ''solutions'', JArray [JString (ascii ''Mw=='')])]"
  let ?self = "\<lparr>input_registers = [0::nat, 1], n_qubits = 2, marked_states = [],
                solutions = [''11'']\<rparr>"
  have h1: "init ascii_db [0::nat, 1] 2 ''oracle.json'' ?w
      = (Inr ?self, ?w\<lparr>opened := [''oracle.json'']\<rparr>)"
    by (simp add: eval_defs)
  have h2: "files ?w ''oracle.json'' = Document (JObject ?items)"
    by (simp add: disk_def config_def)
  have h3: "map_of ?items (ascii ''marked_states'') = Some (JArray [])"
    by simp
  have h4: "distinct [0::nat, 1]" by simp
  from empty_marked_states_two_operations
    [OF h1 h2 h3 h4, of "?w\<lparr>opened := [''oracle.json'']\<rparr>"] h1 h2
  show ?thesis by (simp add: config_def disk_def)
qed

text \<open>
  C7 for every constructed oracle fails. Construction checks the register against
  nothing: with the register \<open>[0, 1]\<close> and \<open>n_qubits = 3\<close> it succeeds, and the call
  of \<^verbatim>\<open>apply_oracle\<close> raises \<^verbatim>\<open>ValueError\<close> at the increment modulo 8 on two wires,
  recording no operation.
\<close>

theorem wrong_register_length_counterexample:
  "init ascii_db [0::nat, 1] 3 ''oracle.json'' (disk (config [] [''Mw=='']))
     = (Inr \<lparr>input_registers = [0, 1], n_qubits = 3, marked_states = [], solutions = [''011'']\<rparr>,
        (disk (config [] [''Mw==''])) \<lparr>opened := [''oracle.json'']\<rparr>)
   \<and> apply_oracle
        \<lparr>input_registers = [0::nat, 1], n_qubits = 3, marked_states = [], solutions = [''011'']\<rparr>
        ((disk (config [] [''Mw==''])) \<lparr>opened := [''oracle.json'']\<rparr>)
       = (Inl ValueError,
          \<lparr>input_registers = [0, 1], n_qubits = 3, marked_states = [], solutions = [''011'']\<rparr>,
          (disk (config [] [''Mw==''])) \<lparr>opened := [''oracle.json'']\<rparr>)"
  by (simp add: eval_defs run_defs)

subsection \<open>C8: the methods change nothing of the oracle\<close>

text \<open>
  Claim C8. Neither \<^verbatim>\<open>apply_oracle\<close> nor \<^verbatim>\<open>is_solution\<close> changes a field of the
  oracle; neither opens a file or changes the file system; \<^verbatim>\<open>is_solution\<close> changes
  nothing at all, and its result depends only on its argument and on the solution
  strings.
\<close>

theorem methods_leave_oracle_unchanged:
  "snd (is_solution self x w) = (self, w)
   \<and> fst (snd (apply_oracle self w)) = self
   \<and> files (snd (snd (apply_oracle self w))) = files w
   \<and> opened (snd (snd (apply_oracle self w))) = opened w
   \<and> (solutions self' = solutions self
        \<longrightarrow> fst (is_solution self' x w') = fst (is_solution self x w))"
  by (simp add: is_solution_def apply_oracle_def adder_def Let_def
      split: prod.splits sum.splits)

theorem methods_leave_oracle_unchanged_witness:
  "snd (is_solution
          \<lparr>input_registers = [0::nat, 1], n_qubits = 2, marked_states = [''11''],
            solutions = [''11'']\<rparr> [1, 1] (disk JNull))
     = (\<lparr>input_registers = [0, 1], n_qubits = 2, marked_states = [''11''],
          solutions = [''11'']\<rparr>, disk JNull)
   \<and> fst (snd (apply_oracle
          \<lparr>input_registers = [0::nat, 1], n_qubits = 2, marked_states = [''11''],
            solutions = [''11'']\<rparr> (disk JNull)))
     = \<lparr>input_registers = [0, 1], n_qubits = 2, marked_states = [''11''],
          solutions = [''11'']\<rparr>
   \<and> opened (snd (snd (apply_oracle
          \<lparr>input_registers = [0::nat, 1], n_qubits = 2, marked_states = [''11''],
            solutions = [''11'']\<rparr> (disk JNull)))) = []
   \<and> fst (is_solution
          \<lparr>input_registers = [3::nat], n_qubits = 1, marked_states = [],
            solutions = [''11'']\<rparr> [1, 1] (disk (JBool True)))
     = fst (is_solution
          \<lparr>input_registers = [0::nat, 1], n_qubits = 2, marked_states = [''11''],
            solutions = [''11'']\<rparr> [1, 1] (disk JNull))"
  using methods_leave_oracle_unchanged
    [of "\<lparr>input_registers = [0::nat, 1], n_qubits = 2, marked_states = [''11''],
            solutions = [''11'']\<rparr>" "[1, 1]" "disk JNull"
        "\<lparr>input_registers = [3::nat], n_qubits = 1, marked_states = [],
            solutions = [''11'']\<rparr>" "disk (JBool True)"]
  by (simp add: disk_def)

subsection \<open>C9: inputs with the same concatenation\<close>

text \<open>
  Claim C9. Two sequences of integers whose elements give the same concatenated binary
  string get the same answer from \<^verbatim>\<open>is_solution\<close>; in particular \<open>[3]\<close> and \<open>[1, 1]\<close>
  always do.
\<close>

theorem is_solution_same_concatenation:
  "(binary_x x = binary_x y \<longrightarrow> fst (is_solution self x w) = fst (is_solution self y w))
   \<and> binary_x [3] = binary_x [1, 1]
   \<and> fst (is_solution self [3] w) = fst (is_solution self [1, 1] w)"
proof -
  have "binary_x [3] = binary_x [1, 1]"
    by (simp add: bin_eval)
  then show ?thesis by (simp add: is_solution_def)
qed

theorem is_solution_same_concatenation_witness:
  "binary_x [2, 1] = ''101'' \<and> binary_x [1, 0, 1] = ''101''
   \<and> fst (is_solution
          \<lparr>input_registers = [0::nat, 1, 2], n_qubits = 3, marked_states = [],
            solutions = [''101'']\<rparr> [2, 1] (disk JNull))
     = fst (is_solution
          \<lparr>input_registers = [0::nat, 1, 2], n_qubits = 3, marked_states = [],
            solutions = [''101'']\<rparr> [1, 0, 1] (disk JNull))
   \<and> fst (is_solution
          \<lparr>input_registers = [0::nat, 1, 2], n_qubits = 3, marked_states = [],
            solutions = [''101'']\<rparr> [1, 0, 1] (disk JNull)) = Inr 1"
proof -
  have a: "binary_x [2, 1] = ''101''" and b: "binary_x [1, 0, 1] = ''101''"
    by (simp_all add: bin_eval)
  from is_solution_same_concatenation [of "[2, 1]" "[1, 0, 1]"
      "\<lparr>input_registers = [0::nat, 1, 2], n_qubits = 3, marked_states = [],
            solutions = [''101'']\<rparr>" "disk JNull"] a b
  show ?thesis by (simp add: is_solution_def)
qed

subsection \<open>C10: \<^verbatim>\<open>is_solution\<close> always answers\<close>

text \<open>
  Claim C10. For every oracle and every finite sequence of integers, empty or not and
  with any elements, \<^verbatim>\<open>is_solution\<close> returns without raising, and returns 0 or 1.
\<close>

theorem is_solution_returns_zero_or_one:
  "\<exists>r. is_solution self x w = (Inr r, self, w) \<and> (r = 0 \<or> r = 1)"
  by (simp add: is_solution_def)

theorem is_solution_returns_zero_or_one_witness:
  "is_solution
     \<lparr>input_registers = [0::nat, 1], n_qubits = 2, marked_states = [''11''],
       solutions = [''11'']\<rparr> [] (disk JNull)
     = (Inr 0,
        \<lparr>input_registers = [0, 1], n_qubits = 2, marked_states = [''11''],
          solutions = [''11'']\<rparr>, disk JNull)
   \<and> is_solution
     \<lparr>input_registers = [0::nat, 1], n_qubits = 2, marked_states = [''11''],
       solutions = [''11'']\<rparr> [7, - 2] (disk JNull)
     = (Inr 0,
        \<lparr>input_registers = [0, 1], n_qubits = 2, marked_states = [''11''],
          solutions = [''11'']\<rparr>, disk JNull)"
  using is_solution_returns_zero_or_one
    [of "\<lparr>input_registers = [0::nat, 1], n_qubits = 2, marked_states = [''11''],
       solutions = [''11'']\<rparr>" "[]" "disk JNull"]
  by (simp add: is_solution_def bin_eval)

end
